theory Spec2Isabelle
  imports Main "HOL-Library.AList"
begin

section \<open>Python values used by the command\<close>

text \<open>
  A Python \<open>str\<close> is a sequence of Unicode code points; \<open>len\<close> counts code points.
  Source literals are ASCII and are written with \<open>ascii\<close>.
\<close>

type_synonym str = "nat list"

definition ascii :: "string \<Rightarrow> str" where
  "ascii s = map of_char s"

text \<open>The objects that reach \<open>handle\<close> through \<open>**options\<close> and the settings module.\<close>

datatype pyobj = PyNone | PyBool bool | PyInt int | PyStr str

text \<open>Python truthiness, as used by \<open>bool(x)\<close>, \<open>not x\<close> and \<open>x or y\<close>.\<close>

fun truthy :: "pyobj \<Rightarrow> bool" where
  "truthy PyNone = False"
| "truthy (PyBool b) = b"
| "truthy (PyInt i) = (i \<noteq> 0)"
| "truthy (PyStr s) = (s \<noteq> [])"

definition py_or :: "pyobj \<Rightarrow> pyobj \<Rightarrow> pyobj" where
  "py_or x y = (if truthy x then x else y)"

definition isinstance_str :: "pyobj \<Rightarrow> bool" where
  "isinstance_str x = (case x of PyStr _ \<Rightarrow> True | _ \<Rightarrow> False)"

text \<open>Decimal rendering of a natural number, as \<open>str(n)\<close> gives it.\<close>

fun digits :: "nat \<Rightarrow> str" where
  "digits n = (if n < 10 then [48 + n] else digits (n div 10) @ [48 + n mod 10])"

declare digits.simps [simp del]

fun py_str :: "pyobj \<Rightarrow> str" where
  "py_str PyNone = ascii ''None''"
| "py_str (PyBool b) = (if b then ascii ''True'' else ascii ''False'')"
| "py_str (PyInt i) = (if i < 0 then ascii ''-'' @ digits (nat (- i)) else digits (nat i))"
| "py_str (PyStr s) = s"

section \<open>Exceptions\<close>

text \<open>
  Every exception carries the text that \<open>str(exc)\<close> yields. \<open>HTTPStatusError\<close> and
  \<open>RequestError\<close> (timeouts, connection and protocol failures) are the two branches
  of httpx's \<open>HTTPError\<close>; \<open>InvalidURL\<close> is raised by httpx but is not an \<open>HTTPError\<close>.
\<close>

datatype os_error =
  FileExistsError | FileNotFoundError | NotADirectoryError | IsADirectoryError

datatype exc =
    HTTPStatusError nat str
  | RequestError str
  | InvalidURL str
  | TypeError str
  | OSError os_error
  | UnicodeEncodeError

fun is_HTTPError :: "exc \<Rightarrow> bool" where
  "is_HTTPError (HTTPStatusError _ _) = True"
| "is_HTTPError (RequestError _) = True"
| "is_HTTPError _ = False"

fun exc_str :: "exc \<Rightarrow> str" where
  "exc_str (HTTPStatusError _ m) = m"
| "exc_str (RequestError m) = m"
| "exc_str (InvalidURL m) = m"
| "exc_str (TypeError m) = m"
| "exc_str (OSError FileExistsError) = ascii ''File exists''"
| "exc_str (OSError FileNotFoundError) = ascii ''No such file or directory''"
| "exc_str (OSError NotADirectoryError) = ascii ''Not a directory''"
| "exc_str (OSError IsADirectoryError) = ascii ''Is a directory''"
| "exc_str UnicodeEncodeError = ascii ''surrogates not allowed''"

section \<open>The file system\<close>

text \<open>
  A path is the list of its components below the root; \<open>[]\<close> is the root. A node is a
  regular file with its bytes or a directory with its entries, so an entry's parent
  is a directory by construction.
\<close>

type_synonym path = "str list"
type_synonym bytes = "nat list"

datatype node = File bytes | Dir "(str \<times> node) list"

fun lookup :: "path \<Rightarrow> node \<Rightarrow> node option" where
  "lookup [] n = Some n"
| "lookup (c # cs) (File b) = None"
| "lookup (c # cs) (Dir es) =
     (case map_of es c of None \<Rightarrow> None | Some n \<Rightarrow> lookup cs n)"


text \<open>\<open>pathlib.Path.parent\<close>: the root is its own parent.\<close>

definition parent :: "path \<Rightarrow> path" where
  "parent p = butlast p"

text \<open>\<open>str(path)\<close> of an absolute path.\<close>

fun path_str :: "path \<Rightarrow> str" where
  "path_str [] = ascii ''/''"
| "path_str [c] = ascii ''/'' @ c"
| "path_str (c # cs) = ascii ''/'' @ c @ path_str cs"

text \<open>A chain of new, otherwise empty directories.\<close>

fun fresh_dirs :: "path \<Rightarrow> node" where
  "fresh_dirs [] = Dir []"
| "fresh_dirs (c # cs) = Dir [(c, fresh_dirs cs)]"

text \<open>
  \<open>Path.mkdir(parents, exist_ok)\<close>. An existing directory is accepted only with
  \<open>exist_ok\<close>; a missing ancestor is created only with \<open>parents\<close>; a regular file
  on the way, or at the path itself, is an error under every flag.
\<close>

fun mkdir :: "path \<Rightarrow> bool \<Rightarrow> bool \<Rightarrow> node \<Rightarrow> os_error + node" where
  "mkdir [] parents exist_ok (File b) = Inl FileExistsError"
| "mkdir (c # cs) parents exist_ok (File b) = Inl NotADirectoryError"
| "mkdir [] parents exist_ok (Dir es) =
     (if exist_ok then Inr (Dir es) else Inl FileExistsError)"
| "mkdir (c # cs) parents exist_ok (Dir es) =
     (case map_of es c of
        None \<Rightarrow>
          if cs = [] \<or> parents then Inr (Dir (AList.update c (fresh_dirs cs) es))
          else Inl FileNotFoundError
      | Some n \<Rightarrow>
          (case mkdir cs parents exist_ok n of
             Inl e \<Rightarrow> Inl e
           | Inr n' \<Rightarrow> Inr (Dir (AList.update c n' es))))"

text \<open>
  Setting the bytes of the regular file at a path, creating the file when only it is
  missing: what opening for writing and writing do to the tree.
\<close>

fun put :: "path \<Rightarrow> bytes \<Rightarrow> node \<Rightarrow> os_error + node" where
  "put [] b (File old) = Inr (File b)"
| "put (c # cs) b (File old) = Inl NotADirectoryError"
| "put [] b (Dir es) = Inl IsADirectoryError"
| "put (c # cs) b (Dir es) =
     (case map_of es c of
        None \<Rightarrow>
          if cs = [] then Inr (Dir (AList.update c (File b) es))
          else Inl FileNotFoundError
      | Some n \<Rightarrow>
          (case put cs b n of
             Inl e \<Rightarrow> Inl e
           | Inr n' \<Rightarrow> Inr (Dir (AList.update c n' es))))"

text \<open>UTF-8. Surrogates and values above U+10FFFF have no encoding.\<close>

definition utf8_char :: "nat \<Rightarrow> bytes option" where
  "utf8_char c =
     (if c < 0x80 then Some [c]
      else if c < 0x800 then Some [0xC0 + c div 0x40, 0x80 + c mod 0x40]
      else if 0xD800 \<le> c \<and> c \<le> 0xDFFF then None
      else if c < 0x10000 then
        Some [0xE0 + c div 0x1000, 0x80 + c div 0x40 mod 0x40, 0x80 + c mod 0x40]
      else if c < 0x110000 then
        Some [0xF0 + c div 0x40000, 0x80 + c div 0x1000 mod 0x40,
              0x80 + c div 0x40 mod 0x40, 0x80 + c mod 0x40]
      else None)"

fun utf8_encode :: "str \<Rightarrow> bytes option" where
  "utf8_encode [] = Some []"
| "utf8_encode (c # cs) =
     (case utf8_char c of
        None \<Rightarrow> None
      | Some b \<Rightarrow> (case utf8_encode cs of None \<Rightarrow> None | Some bs \<Rightarrow> Some (b @ bs)))"

section \<open>The world the command acts on\<close>

datatype style = Plain | ERROR | WARNING | SUCCESS

text \<open>The calls that leave the process, in the order they are made.\<close>

datatype event =
    HttpGet pyobj
  | Mkdir path
  | WriteText path str
  | Stdout style str

record world =
  fs :: node
  log :: "event list"

definition emit :: "event \<Rightarrow> world \<Rightarrow> world" where
  "emit e w = w\<lparr>log := log w @ [e]\<rparr>"

text \<open>\<open>self.stdout.write(self.style.X(msg))\<close>\<close>

definition stdout_write :: "style \<Rightarrow> str \<Rightarrow> world \<Rightarrow> world" where
  "stdout_write sty msg w = emit (Stdout sty msg) w"

definition http_gets :: "world \<Rightarrow> event list" where
  "http_gets w = filter (\<lambda>e. case e of HttpGet _ \<Rightarrow> True | _ \<Rightarrow> False) (log w)"

definition file_writes :: "world \<Rightarrow> event list" where
  "file_writes w = filter (\<lambda>e. case e of WriteText _ _ \<Rightarrow> True | _ \<Rightarrow> False) (log w)"

text \<open>\<open>target_path.parent.mkdir(parents=True, exist_ok=True)\<close> and its like.\<close>

definition path_mkdir :: "path \<Rightarrow> bool \<Rightarrow> bool \<Rightarrow> world \<Rightarrow> (exc + unit) \<times> world" where
  "path_mkdir p parents exist_ok w =
     (let w1 = emit (Mkdir p) w in
      case mkdir p parents exist_ok (fs w1) of
        Inl e \<Rightarrow> (Inl (OSError e), w1)
      | Inr n \<Rightarrow> (Inr (), w1\<lparr>fs := n\<rparr>))"

text \<open>
  \<open>target_path.write_text(content, encoding='utf-8')\<close>: the file is opened for
  writing, which creates or empties it, then the encoded text is written. Text that
  cannot be encoded raises after the file has been emptied.
\<close>

definition write_text :: "path \<Rightarrow> str \<Rightarrow> world \<Rightarrow> (exc + unit) \<times> world" where
  "write_text p content w =
     (let w1 = emit (WriteText p content) w in
      case put p [] (fs w1) of
        Inl e \<Rightarrow> (Inl (OSError e), w1)
      | Inr opened \<Rightarrow>
          (case utf8_encode content of
             None \<Rightarrow> (Inl UnicodeEncodeError, w1\<lparr>fs := opened\<rparr>)
           | Some b \<Rightarrow>
               (case put p b opened of
                  Inl e \<Rightarrow> (Inl (OSError e), w1\<lparr>fs := opened\<rparr>)
                | Inr written \<Rightarrow> (Inr (), w1\<lparr>fs := written\<rparr>))))"

section \<open>The HTTP client\<close>

text \<open>
  A response as \<open>httpx.get\<close> returns it: the status code, the decoded body, and the
  message httpx composes for an \<open>HTTPStatusError\<close> on this response.
\<close>

record response =
  status_code :: nat
  body_text :: str
  status_message :: str

text \<open>
  The network is a parameter: what a GET of a URL string yields, an exception raised
  by the transport or a response.
\<close>

type_synonym network = "str \<Rightarrow> exc + response"

text \<open>\<open>httpx.get\<close> rejects an argument that is neither a string nor a URL object.\<close>

definition httpx_get :: "network \<Rightarrow> pyobj \<Rightarrow> world \<Rightarrow> (exc + response) \<times> world" where
  "httpx_get net url w =
     (let w1 = emit (HttpGet url) w in
      case url of
        PyStr u \<Rightarrow> (net u, w1)
      | _ \<Rightarrow> (Inl (TypeError (ascii ''Invalid type for url'')), w1))"

definition is_success :: "response \<Rightarrow> bool" where
  "is_success r = (200 \<le> status_code r \<and> status_code r \<le> 299)"

definition raise_for_status :: "response \<Rightarrow> exc + response" where
  "raise_for_status r =
     (if is_success r then Inr r
      else Inl (HTTPStatusError (status_code r) (status_message r)))"

text \<open>
  \<^verbatim>\<open>
  def fetch_pattern_header(url: str) -> str:
      response: httpx.Response = httpx.get(url, timeout=30.0)
      response.raise_for_status()
      return response.text
  \<close>
\<close>

definition fetch_pattern_header :: "network \<Rightarrow> pyobj \<Rightarrow> world \<Rightarrow> (exc + str) \<times> world" where
  "fetch_pattern_header net url w =
     (case httpx_get net url w of
        (Inl e, w1) \<Rightarrow> (Inl e, w1)
      | (Inr response, w1) \<Rightarrow>
          (case raise_for_status response of
             Inl e \<Rightarrow> (Inl e, w1)
           | Inr _ \<Rightarrow> (Inr (body_text response), w1)))"

section \<open>The command update\_pattern\_header\<close>

text \<open>
  \<^verbatim>\<open>
  def resolve_target_path() -> pathlib.Path:
      app_dir = pathlib.Path(__file__).resolve().parent.parent.parent
      target_path = (app_dir / 'pdf_checker_app_templates' / 'pdf_checker_app'
                     / 'includes' / 'pattern_header.html')
      return target_path
  \<close>
  The resolved location of the module's own file is a parameter.
\<close>

definition resolve_target_path :: "path \<Rightarrow> path" where
  "resolve_target_path module_file =
     (let app_dir = parent (parent (parent module_file)) in
      app_dir @ [ascii ''pdf_checker_app_templates'', ascii ''pdf_checker_app'',
                 ascii ''includes'', ascii ''pattern_header.html''])"

text \<open>
  \<^verbatim>\<open>
  def save_pattern_header(content: str, target_path: pathlib.Path) -> None:
      target_path.parent.mkdir(parents=True, exist_ok=True)
      target_path.write_text(content, encoding='utf-8')
  \<close>
\<close>

definition save_pattern_header :: "str \<Rightarrow> path \<Rightarrow> world \<Rightarrow> (exc + unit) \<times> world" where
  "save_pattern_header content target_path w =
     (case path_mkdir (parent target_path) True True w of
        (Inl e, w1) \<Rightarrow> (Inl e, w1)
      | (Inr _, w1) \<Rightarrow> write_text target_path content w1)"

text \<open>\<open>d.get(key)\<close> yields \<open>None\<close> for a missing key; \<open>getattr(obj, name, default)\<close>.\<close>

definition dict_get :: "(string \<rightharpoonup> pyobj) \<Rightarrow> string \<Rightarrow> pyobj" where
  "dict_get d k = (case d k of None \<Rightarrow> PyNone | Some v \<Rightarrow> v)"

definition getattr :: "(string \<rightharpoonup> pyobj) \<Rightarrow> string \<Rightarrow> pyobj \<Rightarrow> pyobj" where
  "getattr obj name dflt = (case obj name of None \<Rightarrow> dflt | Some v \<Rightarrow> v)"

text \<open>
  The first lines of \<open>Command.handle\<close>, which choose the URL:
  \<^verbatim>\<open>
  url_option = options_dict.get('url')
  url_override = url_option if isinstance(url_option, str) else ''
  url: str = url_override or getattr(settings, 'PATTERN_HEADER_URL', '')
  \<close>
\<close>

definition resolve_url :: "(string \<rightharpoonup> pyobj) \<Rightarrow> (string \<rightharpoonup> pyobj) \<Rightarrow> pyobj" where
  "resolve_url settings options =
     (let url_option = dict_get options ''url'';
          url_override = (if isinstance_str url_option then url_option else PyStr [])
      in py_or url_override (getattr settings ''PATTERN_HEADER_URL'' (PyStr [])))"

text \<open>
  \<open>Command.handle\<close>. It reads the network, the settings module, the location of its
  own file and the parsed options; it returns normally (\<open>Inr ()\<close>) or lets an
  exception escape (\<open>Inl exc\<close>), and leaves the world changed.
  \<^verbatim>\<open>
  if not url:
      self.stdout.write(self.style.ERROR('PATTERN_HEADER_URL not set ...'))
      return
  dry_run = bool(options_dict.get('dry_run'))
  target_path = resolve_target_path()
  self.stdout.write(f'Fetching pattern header from: {url}')
  try:
      content = fetch_pattern_header(url)
  except httpx.HTTPError as exc:
      self.stdout.write(self.style.ERROR(f'Failed to fetch: {exc}'))
      return
  self.stdout.write(f'Fetched {len(content)} characters')
  if dry_run:
      self.stdout.write(self.style.WARNING('Dry run - not saving'))
      return
  save_pattern_header(content, target_path)
  self.stdout.write(self.style.SUCCESS(f'Saved to: {target_path}'))
  \<close>
\<close>

definition handle ::
  "network \<Rightarrow> (string \<rightharpoonup> pyobj) \<Rightarrow> path \<Rightarrow> (string \<rightharpoonup> pyobj) \<Rightarrow> world
     \<Rightarrow> (exc + unit) \<times> world" where
  "handle net settings module_file options w =
     (let url = resolve_url settings options in
      if \<not> truthy url then
        (Inr (), stdout_write ERROR
           (ascii ''PATTERN_HEADER_URL not set in settings and --url not provided'') w)
      else
        let dry_run = truthy (dict_get options ''dry_run'');
            target_path = resolve_target_path module_file;
            w1 = stdout_write Plain (ascii ''Fetching pattern header from: '' @ py_str url) w
        in case fetch_pattern_header net url w1 of
             (Inl exc, w2) \<Rightarrow>
               if is_HTTPError exc
               then (Inr (), stdout_write ERROR (ascii ''Failed to fetch: '' @ exc_str exc) w2)
               else (Inl exc, w2)
           | (Inr content, w2) \<Rightarrow>
               let w3 = stdout_write Plain
                          (ascii ''Fetched '' @ digits (length content) @ ascii '' characters'') w2
               in if dry_run
                  then (Inr (), stdout_write WARNING (ascii ''Dry run - not saving'') w3)
                  else (case save_pattern_header content target_path w3 of
                          (Inl exc, w4) \<Rightarrow> (Inl exc, w4)
                        | (Inr _, w4) \<Rightarrow>
                            (Inr (), stdout_write SUCCESS
                               (ascii ''Saved to: '' @ path_str target_path) w4)))"

text \<open>
  When a save can go through: the target is not the root, no component above it is a
  regular file, and the target itself is not a directory.
\<close>

fun writable :: "path \<Rightarrow> node \<Rightarrow> bool" where
  "writable [] n = False"
| "writable (c # cs) (File b) = False"
| "writable (c # cs) (Dir es) =
     (case map_of es c of
        None \<Rightarrow> True
      | Some n \<Rightarrow>
          (if cs = [] then (case n of File _ \<Rightarrow> True | Dir _ \<Rightarrow> False)
           else writable cs n))"

section \<open>manage.py\<close>

type_synonym environ = "str \<rightharpoonup> str"

text \<open>\<open>os.environ.setdefault(key, value)\<close>\<close>

definition setdefault :: "environ \<Rightarrow> str \<Rightarrow> str \<Rightarrow> environ" where
  "setdefault env k v = (case env k of None \<Rightarrow> env(k \<mapsto> v) | Some _ \<Rightarrow> env)"

datatype import_error = ImportError str

text \<open>
  \<^verbatim>\<open>
  def main():
      os.environ.setdefault('DJANGO_SETTINGS_MODULE', 'config.settings')
      try:
          from django.core.management import execute_from_command_line
      except ImportError as exc:
          raise ImportError("Couldn't import Django. ...") from exc
      execute_from_command_line(sys.argv)
  \<close>
  Whether Django can be imported, what \<open>execute_from_command_line\<close> does, and
  \<open>sys.argv\<close> are parameters. The result pairs what \<open>main\<close> raises or what the
  delegate yields with the environment as \<open>main\<close> itself leaves it.
\<close>

definition main ::
  "bool \<Rightarrow> (str list \<Rightarrow> environ \<Rightarrow> 'r) \<Rightarrow> str list \<Rightarrow> environ
     \<Rightarrow> (import_error + 'r) \<times> environ" where
  "main django_importable execute_from_command_line argv env =
     (let env1 = setdefault env (ascii ''DJANGO_SETTINGS_MODULE'') (ascii ''config.settings'') in
      if \<not> django_importable then
        (Inl (ImportError
           (ascii ''Couldn'' @ [39] @ ascii ''t import Django. Are you sure it''
            @ [39] @ ascii ''s installed and available on your PYTHONPATH environment variable? Did you forget to activate a virtual environment?'')),
         env1)
      else (Inr (execute_from_command_line argv env1), env1))"

section \<open>admin.py\<close>

record fieldset =
  title :: string
  field_list :: "string list"
  classes :: "string list"

record model_admin =
  class_name :: string
  list_display :: "string list"
  list_filter :: "string list"
  search_fields :: "string list"
  readonly_fields :: "string list"
  fieldsets :: "fieldset list"

text \<open>
  The admin site's registry, in registration order. \<open>@admin.register(Model)\<close>
  registers the decorated class for the model and refuses a model that is
  registered already.
\<close>

type_synonym admin_site = "(string \<times> model_admin) list"

datatype admin_error = AlreadyRegistered string

definition register :: "string \<Rightarrow> model_admin \<Rightarrow> admin_site \<Rightarrow> admin_error + admin_site" where
  "register model admin_class site =
     (if map_of site model \<noteq> None then Inl (AlreadyRegistered model)
      else Inr (site @ [(model, admin_class)]))"

definition PDFDocumentAdmin :: model_admin where
  "PDFDocumentAdmin = \<lparr>
     class_name = ''PDFDocumentAdmin'',
     list_display = [''original_filename'', ''user_email'', ''file_size'',
                     ''processing_status'', ''uploaded_at''],
     list_filter = [''processing_status'', ''uploaded_at''],
     search_fields = [''original_filename'', ''user_email'', ''user_first_name'',
                      ''user_last_name'', ''file_checksum''],
     readonly_fields = [''file_checksum'', ''file_size'', ''uploaded_at''],
     fieldsets = [
       \<lparr>title = ''File Information'',
        field_list = [''original_filename'', ''file_checksum'', ''file_size''], classes = []\<rparr>,
       \<lparr>title = ''User Information'',
        field_list = [''user_first_name'', ''user_last_name'', ''user_email'', ''user_groups''],
        classes = []\<rparr>,
       \<lparr>title = ''Status'',
        field_list = [''processing_status'', ''processing_error'', ''uploaded_at''],
        classes = []\<rparr>]\<rparr>"

definition VeraPDFResultAdmin :: model_admin where
  "VeraPDFResultAdmin = \<lparr>
     class_name = ''VeraPDFResultAdmin'',
     list_display = [''pdf_document'', ''is_accessible'', ''validation_profile'',
                     ''passed_checks'', ''failed_checks'', ''analyzed_at''],
     list_filter = [''is_accessible'', ''validation_profile'', ''analyzed_at''],
     search_fields = [''pdf_document__original_filename'', ''validation_profile''],
     readonly_fields = [''pdf_document'', ''raw_json'', ''analyzed_at'', ''verapdf_version''],
     fieldsets = [
       \<lparr>title = ''Document'', field_list = [''pdf_document''], classes = []\<rparr>,
       \<lparr>title = ''Analysis Results'',
        field_list = [''is_accessible'', ''validation_profile'', ''total_checks'',
                  ''passed_checks'', ''failed_checks''],
        classes = []\<rparr>,
       \<lparr>title = ''Metadata'', field_list = [''analyzed_at'', ''verapdf_version''], classes = []\<rparr>,
       \<lparr>title = ''Raw Data'', field_list = [''raw_json''], classes = [''collapse'']\<rparr>]\<rparr>"

definition OpenRouterSummaryAdmin :: model_admin where
  "OpenRouterSummaryAdmin = \<lparr>
     class_name = ''OpenRouterSummaryAdmin'',
     list_display = [''pdf_document'', ''status'', ''model'', ''provider'',
                     ''total_tokens'', ''cost'', ''completed_at''],
     list_filter = [''status'', ''provider'', ''model'', ''finish_reason'', ''completed_at''],
     search_fields = [''pdf_document__original_filename'', ''openrouter_response_id'',
                      ''provider'', ''model'', ''summary_text''],
     readonly_fields = [''pdf_document'', ''openrouter_response_id'', ''raw_response_json'',
                        ''requested_at'', ''completed_at'', ''openrouter_created_at'',
                        ''prompt_tokens'', ''completion_tokens'', ''total_tokens'', ''cost''],
     fieldsets = [
       \<lparr>title = ''Document'', field_list = [''pdf_document''], classes = []\<rparr>,
       \<lparr>title = ''Summary'',
        field_list = [''summary_text'', ''prompt'', ''status'', ''error''], classes = []\<rparr>,
       \<lparr>title = ''OpenRouter Metadata'',
        field_list = [''openrouter_response_id'', ''provider'', ''model'', ''finish_reason''],
        classes = []\<rparr>,
       \<lparr>title = ''Usage & Cost'',
        field_list = [''prompt_tokens'', ''completion_tokens'', ''total_tokens'', ''cost''],
        classes = []\<rparr>,
       \<lparr>title = ''Timestamps'',
        field_list = [''requested_at'', ''completed_at'', ''openrouter_created_at''],
        classes = []\<rparr>,
       \<lparr>title = ''Raw Data'', field_list = [''raw_response_json''], classes = [''collapse'']\<rparr>]\<rparr>"

text \<open>Importing \<open>admin.py\<close> runs its three decorated class statements in order.\<close>

definition admin_py :: "admin_site \<Rightarrow> admin_error + admin_site" where
  "admin_py site =
     (case register ''PDFDocument'' PDFDocumentAdmin site of
        Inl e \<Rightarrow> Inl e
      | Inr s1 \<Rightarrow>
          (case register ''VeraPDFResult'' VeraPDFResultAdmin s1 of
             Inl e \<Rightarrow> Inl e
           | Inr s2 \<Rightarrow> register ''OpenRouterSummary'' OpenRouterSummaryAdmin s2))"

section \<open>The report view exercised by test\_pdf\_report.py\<close>

text \<open>The fields the test's \<open>setUp\<close> gives a \<open>PDFDocument\<close>; the primary key is the map's key.\<close>

record pdf_document =
  original_filename :: str
  file_checksum :: str
  file_size :: nat
  user_first_name :: str
  user_last_name :: str
  user_email :: str
  user_groups :: "str list"
  processing_status :: str

definition is_hex_digit :: "nat \<Rightarrow> bool" where
  "is_hex_digit c = ((48 \<le> c \<and> c \<le> 57) \<or> (97 \<le> c \<and> c \<le> 102))"

text \<open>
  Modelled from the spec: the URL configuration is not among the sources. A path
  segment is a well-formed UUID when it has the canonical form of \<open>str(uuid.uuid4())\<close>:
  32 lower-case hexadecimal digits in groups of 8, 4, 4, 4 and 12 separated by hyphens.
\<close>

definition is_uuid :: "str \<Rightarrow> bool" where
  "is_uuid s =
     (length s = 36 \<and>
      list_all (\<lambda>(i, c). if i \<in> {8, 13, 18, 23} then c = 45 else is_hex_digit c)
        (enumerate 0 s))"

text \<open>
  Modelled from the spec: the route named \<open>pdf_report_url\<close> is not among the sources.
  The test requests \<open>/pdf/report/not-a-uuid/\<close>, so the route is \<open>/pdf/report/<pk>/\<close>
  with the report keyed by a UUID.
\<close>

definition reverse_pdf_report_url :: "str \<Rightarrow> str" where
  "reverse_pdf_report_url pk = ascii ''/pdf/report/'' @ pk @ ascii ''/''"

text \<open>
  Modelled from the spec: matching a request path against that route is not among
  the sources either. The segment between \<open>/pdf/report/\<close> and the final slash is
  the key when it is a well-formed UUID; any other path does not match.
\<close>

definition resolve_pdf_report_url :: "str \<Rightarrow> str option" where
  "resolve_pdf_report_url url_path =
     (let pre = ascii ''/pdf/report/''; n = length pre in
      if take n url_path = pre \<and> n < length url_path \<and> last url_path = 47 then
        (let seg = butlast (drop n url_path) in if is_uuid seg then Some seg else None)
      else None)"

text \<open>
  Modelled from the spec: the report view is not among the sources. A request whose
  path has no well-formed UUID, or a UUID that is no document's key, is answered 404;
  otherwise the answer is 200 and the page shows the document's original filename
  between the rest of the page, which is a parameter.
\<close>

definition pdf_report ::
  "(str \<rightharpoonup> pdf_document) \<Rightarrow> str \<Rightarrow> str \<Rightarrow> str \<Rightarrow> nat \<times> str" where
  "pdf_report documents page_head page_tail url_path =
     (case resolve_pdf_report_url url_path of
        None \<Rightarrow> (404, ascii ''Not Found'')
      | Some pk \<Rightarrow>
          (case documents pk of
             None \<Rightarrow> (404, ascii ''Not Found'')
           | Some doc \<Rightarrow> (200, page_head @ original_filename doc @ page_tail)))"

text \<open>\<open>PDFReportTest.setUp\<close>: one document under a fresh UUID.\<close>

definition setUp :: "str \<Rightarrow> (str \<rightharpoonup> pdf_document)" where
  "setUp test_uuid =
     [test_uuid \<mapsto> \<lparr>
        original_filename = ascii ''test.pdf'',
        file_checksum = ascii ''test_checksum_123'',
        file_size = 1024,
        user_first_name = ascii ''Test'',
        user_last_name = ascii ''User'',
        user_email = ascii ''test@example.com'',
        user_groups = [ascii ''test_group''],
        processing_status = ascii ''completed''\<rparr>]"

text \<open>\<open>assertContains(response, text)\<close> on the response body.\<close>

definition contains :: "str \<Rightarrow> str \<Rightarrow> bool" where
  "contains body t = (\<exists>i \<in> set [0 ..< Suc (length body)]. take (length t) (drop i body) = t)"

section \<open>Facts about the file system\<close>



lemma put_put: "put p b n = Inr n1 \<Longrightarrow> put p b' n1 = put p b' n"
proof (induction p arbitrary: n n1)
  case Nil then show ?case by (cases n) auto
next
  case (Cons c cs)
  show ?case
  proof (cases n)
    case (File b) with Cons.prems show ?thesis by simp
  next
    case (Dir es)
    show ?thesis
    proof (cases "map_of es c")
      case None
      with Dir Cons.prems show ?thesis by (auto simp: update_conv' split: if_splits)
    next
      case (Some m)
      with Dir Cons.prems obtain m' where m': "put cs b m = Inr m'"
        and n1: "n1 = Dir (AList.update c m' es)"
        by (auto split: sum.splits)
      from Cons.IH [OF m'] show ?thesis by (simp add: n1 Dir Some update_conv' split: sum.splits)
    qed
  qed
qed

lemma put_isl: "isl (put p b n) = isl (put p b' n)"
proof (induction p arbitrary: n)
  case Nil then show ?case by (cases n) auto
next
  case (Cons c cs)
  show ?case
  proof (cases n)
    case (File b) then show ?thesis by simp
  next
    case (Dir es)
    show ?thesis
    proof (cases "map_of es c")
      case None
      with Dir show ?thesis by auto
    next
      case (Some m)
      with Cons.IH [of m] Dir show ?thesis by (auto split: sum.splits)
    qed
  qed
qed

lemma put_lookup: "put p b n = Inr n1 \<Longrightarrow> lookup p n1 = Some (File b)"
proof (induction p arbitrary: n n1)
  case Nil then show ?case by (cases n) auto
next
  case (Cons c cs)
  show ?case
  proof (cases n)
    case (File b) with Cons.prems show ?thesis by simp
  next
    case (Dir es)
    show ?thesis
    proof (cases "map_of es c")
      case None
      with Dir Cons.prems show ?thesis by (auto simp: update_conv' split: if_splits)
    next
      case (Some m)
      with Dir Cons.prems obtain m' where m': "put cs b m = Inr m'"
        and n1: "n1 = Dir (AList.update c m' es)"
        by (auto split: sum.splits)
      from Cons.IH [OF m'] show ?thesis by (simp add: n1 update_conv')
    qed
  qed
qed


lemma put_fresh: "p \<noteq> [] \<Longrightarrow> \<exists>n2. put p b (fresh_dirs (butlast p)) = Inr n2"
  by (induction p) (auto simp: update_conv')

lemma mkdir_put_ok:
  "p \<noteq> [] \<Longrightarrow> writable p n \<Longrightarrow>
     \<exists>n1 n2. mkdir (butlast p) True True n = Inr n1 \<and> put p b n1 = Inr n2"
proof (induction p arbitrary: n)
  case Nil then show ?case by simp
next
  case (Cons c cs)
  show ?case
  proof (cases n)
    case (File b) with Cons.prems show ?thesis by simp
  next
    case (Dir es)
    show ?thesis
    proof (cases "cs = []")
      case True
      with Dir Cons.prems show ?thesis by (auto split: option.splits node.splits)
    next
      case False
      show ?thesis
      proof (cases "map_of es c")
        case None
        from put_fresh [OF False, of b] obtain n2 where "put cs b (fresh_dirs (butlast cs)) = Inr n2" ..
        with None Dir False show ?thesis by (simp add: update_conv')
      next
        case (Some m)
        with Dir Cons.prems False have "writable cs m" by simp
        from Cons.IH [OF False this] obtain m1 m2
          where "mkdir (butlast cs) True True m = Inr m1" "put cs b m1 = Inr m2" by blast
        with Some Dir False show ?thesis by (simp add: update_conv')
      qed
    qed
  qed
qed

lemma mkdir_put_writable:
  "mkdir (butlast p) True True n = Inr n1 \<Longrightarrow> put p b n1 = Inr n2 \<Longrightarrow> writable p n"
proof (induction p arbitrary: n n1 n2)
  case Nil then show ?case by (cases n) (auto)
next
  case (Cons c cs)
  show ?case
  proof (cases n)
    case (File b) with Cons.prems show ?thesis by (cases cs) auto
  next
    case (Dir es)
    show ?thesis
    proof (cases "cs = []")
      case True
      with Dir Cons.prems show ?thesis by (cases "map_of es c") (auto split: node.splits sum.splits)
    next
      case False
      show ?thesis
      proof (cases "map_of es c")
        case None
        with Dir False show ?thesis by simp
      next
        case (Some m)
        with Dir Cons.prems False obtain m1 where m1: "mkdir (butlast cs) True True m = Inr m1"
          and n1: "n1 = Dir (AList.update c m1 es)" by (auto split: sum.splits)
        with Cons.prems(2) obtain m2 where "put cs b m1 = Inr m2"
          by (auto simp: update_conv' split: sum.splits)
        from Cons.IH [OF m1 this] Some Dir False show ?thesis by simp
      qed
    qed
  qed
qed

lemma parent_Nil [simp]: "parent [] = []" by (simp add: parent_def)

lemma save_fs_cases:
  "fs (snd (save_pattern_header c p w)) =
     (case mkdir (parent p) True True (fs w) of
        Inl e \<Rightarrow> fs w
      | Inr n1 \<Rightarrow>
          (case put p [] n1 of
             Inl e \<Rightarrow> n1
           | Inr n2 \<Rightarrow>
               (case utf8_encode c of
                  None \<Rightarrow> n2
                | Some b \<Rightarrow> (case put p b n2 of Inl e \<Rightarrow> n2 | Inr n3 \<Rightarrow> n3))))"
  by (simp add: save_pattern_header_def path_mkdir_def write_text_def emit_def Let_def
           split: sum.splits option.splits)

lemma save_ok_iff:
  "(fst (save_pattern_header c p w) = Inr ()) = (writable p (fs w) \<and> utf8_encode c \<noteq> None)"
proof (cases "p = []")
  case True
  then show ?thesis
    by (cases "fs w")
       (auto simp: save_pattern_header_def path_mkdir_def write_text_def emit_def Let_def
             split: sum.splits option.splits)
next
  case False
  show ?thesis
  proof
    assume ok: "fst (save_pattern_header c p w) = Inr ()"
    then obtain n1 n2 b where "mkdir (butlast p) True True (fs w) = Inr n1" "put p [] n1 = Inr n2"
      "utf8_encode c = Some b"
      by (auto simp: save_pattern_header_def path_mkdir_def write_text_def emit_def Let_def parent_def
             split: sum.splits option.splits)
    with mkdir_put_writable show "writable p (fs w) \<and> utf8_encode c \<noteq> None" by auto
  next
    assume a: "writable p (fs w) \<and> utf8_encode c \<noteq> None"
    then obtain b where b: "utf8_encode c = Some b" by auto
    from mkdir_put_ok [OF False, of "fs w" "[]"] a obtain n1 n2
      where m: "mkdir (butlast p) True True (fs w) = Inr n1" and p1: "put p [] n1 = Inr n2" by blast
    from put_put [OF p1, of b] put_isl [of p b n1 "[]"] p1 obtain n3 where "put p b n2 = Inr n3"
      by (cases "put p b n1") auto
    with m p1 b show "fst (save_pattern_header c p w) = Inr ()"
      by (simp add: save_pattern_header_def path_mkdir_def write_text_def emit_def Let_def parent_def)
  qed
qed

lemma save_ok_content:
  assumes "fst (save_pattern_header c p w) = Inr ()"
  shows "\<exists>b. utf8_encode c = Some b \<and> lookup p (fs (snd (save_pattern_header c p w))) = Some (File b)"
proof -
  from assms obtain n1 n2 b n3 where "mkdir (parent p) True True (fs w) = Inr n1" "put p [] n1 = Inr n2"
      "utf8_encode c = Some b" "put p b n2 = Inr n3"
      by (auto simp: save_pattern_header_def path_mkdir_def write_text_def emit_def Let_def
             split: sum.splits option.splits)
  then show ?thesis using put_lookup [of p b n2 n3] by (simp add: save_fs_cases)
qed




lemma save_log:
  "log (snd (save_pattern_header c p w)) =
     log w @ Mkdir (parent p) #
       (case mkdir (parent p) True True (fs w) of Inl e \<Rightarrow> [] | Inr n \<Rightarrow> [WriteText p c])"
  by (simp add: save_pattern_header_def path_mkdir_def write_text_def emit_def Let_def
           split: sum.splits option.splits)

lemma save_raises_log:
  "fst (save_pattern_header c p w) = Inr () \<Longrightarrow>
   log (snd (save_pattern_header c p w)) = log w @ [Mkdir (parent p), WriteText p c]"
  by (auto simp add: save_pattern_header_def path_mkdir_def write_text_def emit_def Let_def
           split: sum.splits option.splits)

section \<open>Facts about the fetch\<close>

lemma fetch_snd: "snd (fetch_pattern_header net url w) = emit (HttpGet url) w"
  by (simp add: fetch_pattern_header_def httpx_get_def raise_for_status_def Let_def
           split: sum.splits pyobj.splits)

lemma fetch_fst: "fst (fetch_pattern_header net url w) = fst (fetch_pattern_header net url w')"
  by (simp add: fetch_pattern_header_def httpx_get_def raise_for_status_def Let_def
           split: sum.splits pyobj.splits)

lemma fetch_str:
  "net u = Inr r \<Longrightarrow> is_success r \<Longrightarrow> fst (fetch_pattern_header net (PyStr u) w) = Inr (body_text r)"
  by (simp add: fetch_pattern_header_def httpx_get_def raise_for_status_def Let_def)

section \<open>Facts about handle, by the outcome of the fetch\<close>

lemma handle_no_url:
  "\<not> truthy (resolve_url settings options) \<Longrightarrow>
   handle net settings mf options w =
     (Inr (), w\<lparr>log := log w @
        [Stdout ERROR (ascii ''PATTERN_HEADER_URL not set in settings and --url not provided'')]\<rparr>)"
  by (simp add: handle_def stdout_write_def emit_def)

lemma handle_fetch_raises:
  assumes "truthy (resolve_url settings options)"
    and "fst (fetch_pattern_header net (resolve_url settings options) w) = Inl e"
  shows "handle net settings mf options w =
     (if is_HTTPError e
      then (Inr (), w\<lparr>log := log w @
        [Stdout Plain (ascii ''Fetching pattern header from: '' @ py_str (resolve_url settings options)),
         HttpGet (resolve_url settings options),
         Stdout ERROR (ascii ''Failed to fetch: '' @ exc_str e)]\<rparr>)
      else (Inl e, w\<lparr>log := log w @
        [Stdout Plain (ascii ''Fetching pattern header from: '' @ py_str (resolve_url settings options)),
         HttpGet (resolve_url settings options)]\<rparr>))"
proof -
  let ?url = "resolve_url settings options"
  let ?w1 = "stdout_write Plain (ascii ''Fetching pattern header from: '' @ py_str ?url) w"
  have "fst (fetch_pattern_header net ?url ?w1) = Inl e"
    using assms(2) fetch_fst by metis
  then have "fetch_pattern_header net ?url ?w1 = (Inl e, emit (HttpGet ?url) ?w1)"
    using fetch_snd [of net ?url ?w1] by (metis prod.collapse)
  with assms(1) show ?thesis
    by (simp add: handle_def Let_def stdout_write_def emit_def)
qed

lemma handle_fetched:
  assumes "truthy (resolve_url settings options)"
    and "fst (fetch_pattern_header net (resolve_url settings options) w) = Inr content"
  shows "handle net settings mf options w =
     (let url = resolve_url settings options;
          w3 = w\<lparr>log := log w @
            [Stdout Plain (ascii ''Fetching pattern header from: '' @ py_str url),
             HttpGet url,
             Stdout Plain (ascii ''Fetched '' @ digits (length content) @ ascii '' characters'')]\<rparr>
      in if truthy (dict_get options ''dry_run'')
         then (Inr (), w3\<lparr>log := log w3 @ [Stdout WARNING (ascii ''Dry run - not saving'')]\<rparr>)
         else (case save_pattern_header content (resolve_target_path mf) w3 of
                 (Inl exc, w4) \<Rightarrow> (Inl exc, w4)
               | (Inr _, w4) \<Rightarrow>
                   (Inr (), w4\<lparr>log := log w4 @
                      [Stdout SUCCESS (ascii ''Saved to: '' @ path_str (resolve_target_path mf))]\<rparr>)))"
proof -
  let ?url = "resolve_url settings options"
  let ?w1 = "stdout_write Plain (ascii ''Fetching pattern header from: '' @ py_str ?url) w"
  have "fst (fetch_pattern_header net ?url ?w1) = Inr content"
    using assms(2) fetch_fst by metis
  then have "fetch_pattern_header net ?url ?w1 = (Inr content, emit (HttpGet ?url) ?w1)"
    using fetch_snd [of net ?url ?w1] by (metis prod.collapse)
  with assms(1) show ?thesis
    by (simp add: handle_def Let_def stdout_write_def emit_def split: prod.splits sum.splits)
qed

section \<open>Properties of the fetch\<close>

text \<open>
  Claim C3. For every URL, \<open>fetch_pattern_header\<close> returns the response body text
  exactly when the GET produced a response with a success status; on a response
  with any other status it raises the \<open>HTTPStatusError\<close> of \<open>raise_for_status\<close>.
\<close>

theorem fetch_pattern_header_success_iff:
  "(fst (fetch_pattern_header net (PyStr u) w) = Inr t)
     = (\<exists>r. net u = Inr r \<and> is_success r \<and> body_text r = t)
   \<and> (\<forall>r. net u = Inr r \<and> \<not> is_success r \<longrightarrow>
         fst (fetch_pattern_header net (PyStr u) w)
           = Inl (HTTPStatusError (status_code r) (status_message r)))"
  by (auto simp: fetch_pattern_header_def httpx_get_def raise_for_status_def Let_def
           split: sum.splits if_splits)

theorem fetch_pattern_header_success_iff_witness:
  "(fst (fetch_pattern_header
      (\<lambda>_. Inr \<lparr>status_code = 404, body_text = ascii ''gone'', status_message = ascii ''Client error''\<rparr>)
      (PyStr (ascii ''http://h/x'')) \<lparr>fs = Dir [], log = []\<rparr>) = Inr (ascii ''gone'')) = False
   \<and> fst (fetch_pattern_header
      (\<lambda>_. Inr \<lparr>status_code = 404, body_text = ascii ''gone'', status_message = ascii ''Client error''\<rparr>)
      (PyStr (ascii ''http://h/x'')) \<lparr>fs = Dir [], log = []\<rparr>)
       = Inl (HTTPStatusError 404 (ascii ''Client error''))"
  using fetch_pattern_header_success_iff
    [of "\<lambda>_. Inr \<lparr>status_code = 404, body_text = ascii ''gone'', status_message = ascii ''Client error''\<rparr>"
        "ascii ''http://h/x''" "\<lparr>fs = Dir [], log = []\<rparr>" "ascii ''gone''"]
  by (simp add: is_success_def)

section \<open>Properties of the command\<close>

text \<open>
  Claim C1. When the URL resolves to a non-empty string whose GET succeeds and
  \<open>--dry-run\<close> is not set, \<open>handle\<close> returns normally exactly when the target path
  \<open>pdf_checker_app_templates/pdf_checker_app/includes/pattern_header.html\<close> under the
  app directory can be written and the text can be encoded, and after it has returned
  the file at the target path holds the UTF-8 encoding of the fetched text.
\<close>

theorem handle_writes_fetched_text:
  assumes "resolve_url settings options = PyStr u" and "u \<noteq> []"
    and "net u = Inr r" and "is_success r"
    and "\<not> truthy (dict_get options ''dry_run'')"
  shows "(fst (handle net settings module_file options w) = Inr ())
           = (writable (resolve_target_path module_file) (fs w) \<and> utf8_encode (body_text r) \<noteq> None)
       \<and> (fst (handle net settings module_file options w) = Inr () \<longrightarrow>
            (\<exists>b. utf8_encode (body_text r) = Some b \<and>
                 lookup (resolve_target_path module_file)
                   (fs (snd (handle net settings module_file options w))) = Some (File b)))"
proof -
  let ?url = "resolve_url settings options"
  have t: "truthy ?url" using assms(1,2) by simp
  have f: "fst (fetch_pattern_header net ?url w) = Inr (body_text r)"
    using assms(1,3,4) by (simp add: fetch_str)
  let ?w3 = "w\<lparr>log := log w @
            [Stdout Plain (ascii ''Fetching pattern header from: '' @ py_str ?url),
             HttpGet ?url,
             Stdout Plain (ascii ''Fetched '' @ digits (length (body_text r)) @ ascii '' characters'')]\<rparr>"
  let ?s = "save_pattern_header (body_text r) (resolve_target_path module_file) ?w3"
  have h: "handle net settings module_file options w =
      (case ?s of (Inl exc, w4) \<Rightarrow> (Inl exc, w4)
        | (Inr _, w4) \<Rightarrow> (Inr (), w4\<lparr>log := log w4 @
             [Stdout SUCCESS (ascii ''Saved to: '' @ path_str (resolve_target_path module_file))]\<rparr>))"
    using handle_fetched [OF t f, of module_file] assms(5) by (simp add: Let_def)
  have r: "(fst (handle net settings module_file options w) = Inr ()) = (fst ?s = Inr ())"
    by (simp add: h split: prod.splits sum.splits)
  have s: "fst ?s = Inr () \<Longrightarrow> fs (snd (handle net settings module_file options w)) = fs (snd ?s)"
    by (simp add: h split: prod.splits sum.splits)
  show ?thesis
    using save_ok_iff [of "body_text r" "resolve_target_path module_file" ?w3]
      save_ok_content [of "body_text r" "resolve_target_path module_file" ?w3] r s
    by auto
qed

theorem handle_writes_fetched_text_witness:
  "fst (handle (\<lambda>_. Inr \<lparr>status_code = 200, body_text = ascii ''hi'', status_message = []\<rparr>)
         [''PATTERN_HEADER_URL'' \<mapsto> PyStr (ascii ''http://h/x'')]
         [ascii ''app'', ascii ''management'', ascii ''commands'', ascii ''c.py'']
         Map.empty \<lparr>fs = Dir [], log = []\<rparr>) = Inr ()
   \<and> lookup [ascii ''app'', ascii ''pdf_checker_app_templates'', ascii ''pdf_checker_app'',
              ascii ''includes'', ascii ''pattern_header.html'']
        (fs (snd (handle (\<lambda>_. Inr \<lparr>status_code = 200, body_text = ascii ''hi'', status_message = []\<rparr>)
         [''PATTERN_HEADER_URL'' \<mapsto> PyStr (ascii ''http://h/x'')]
         [ascii ''app'', ascii ''management'', ascii ''commands'', ascii ''c.py'']
         Map.empty \<lparr>fs = Dir [], log = []\<rparr>))) = Some (File [104, 105])"
proof -
  let ?net = "\<lambda>_::str. Inr \<lparr>status_code = 200, body_text = ascii ''hi'', status_message = []\<rparr> :: exc + response"
  let ?settings = "[''PATTERN_HEADER_URL'' \<mapsto> PyStr (ascii ''http://h/x'')]"
  let ?mf = "[ascii ''app'', ascii ''management'', ascii ''commands'', ascii ''c.py'']"
  let ?r = "\<lparr>status_code = 200, body_text = ascii ''hi'', status_message = []\<rparr>"
  have a1: "resolve_url ?settings Map.empty = PyStr (ascii ''http://h/x'')"
    by (simp add: resolve_url_def dict_get_def getattr_def py_or_def isinstance_str_def ascii_def)
  have a2: "ascii ''http://h/x'' \<noteq> []" by (simp add: ascii_def)
  have a3: "?net (ascii ''http://h/x'') = Inr ?r" by simp
  have a4: "is_success ?r" by (simp add: is_success_def)
  have a5: "\<not> truthy (dict_get Map.empty ''dry_run'')" by (simp add: dict_get_def)
  have t: "resolve_target_path ?mf = [ascii ''app'', ascii ''pdf_checker_app_templates'', ascii ''pdf_checker_app'',
              ascii ''includes'', ascii ''pattern_header.html'']"
    by (simp add: resolve_target_path_def parent_def)
  have e: "utf8_encode (body_text ?r) = Some [104, 105]" by (simp add: ascii_def utf8_char_def)
  have wr: "writable (resolve_target_path ?mf) (fs \<lparr>fs = Dir [], log = []\<rparr>)" by (simp add: t)
  from handle_writes_fetched_text [OF a1 a2 a3 a4 a5, of ?mf "\<lparr>fs = Dir [], log = []\<rparr>"] wr e t
  show ?thesis by auto
qed

text \<open>
  Claim C2. When the fetch raises an \<open>httpx.HTTPError\<close>, \<open>handle\<close> returns normally
  after writing the error line to stdout and without any file write, so the file
  system is as before; an exception of the fetch that is not an \<open>HTTPError\<close> is not
  caught and escapes from \<open>handle\<close>.
\<close>

theorem handle_catches_only_HTTPError:
  assumes "truthy (resolve_url settings options)"
    and "fst (fetch_pattern_header net (resolve_url settings options) w) = Inl e"
  shows "(is_HTTPError e \<longrightarrow>
            fst (handle net settings module_file options w) = Inr () \<and>
            log (snd (handle net settings module_file options w)) =
              log w @
              [Stdout Plain (ascii ''Fetching pattern header from: ''
                               @ py_str (resolve_url settings options)),
               HttpGet (resolve_url settings options),
               Stdout ERROR (ascii ''Failed to fetch: '' @ exc_str e)])
       \<and> (\<not> is_HTTPError e \<longrightarrow> fst (handle net settings module_file options w) = Inl e)
       \<and> fs (snd (handle net settings module_file options w)) = fs w
       \<and> file_writes (snd (handle net settings module_file options w)) = file_writes w"
  using handle_fetch_raises [OF assms, of module_file]
  by (simp add: file_writes_def)

theorem handle_catches_only_HTTPError_witness:
  "fst (handle (\<lambda>_. Inl (RequestError (ascii ''timed out'')))
         [''PATTERN_HEADER_URL'' \<mapsto> PyStr (ascii ''http://h/x'')]
         [ascii ''app'', ascii ''management'', ascii ''commands'', ascii ''c.py'']
         Map.empty \<lparr>fs = Dir [], log = []\<rparr>) = Inr ()
   \<and> fs (snd (handle (\<lambda>_. Inl (RequestError (ascii ''timed out'')))
         [''PATTERN_HEADER_URL'' \<mapsto> PyStr (ascii ''http://h/x'')]
         [ascii ''app'', ascii ''management'', ascii ''commands'', ascii ''c.py'']
         Map.empty \<lparr>fs = Dir [], log = []\<rparr>)) = Dir []"
proof -
  let ?net = "\<lambda>_::str. Inl (RequestError (ascii ''timed out'')) :: exc + response"
  let ?settings = "[''PATTERN_HEADER_URL'' \<mapsto> PyStr (ascii ''http://h/x'')]"
  let ?w = "\<lparr>fs = Dir [], log = []\<rparr>"
  have u: "resolve_url ?settings Map.empty = PyStr (ascii ''http://h/x'')"
    by (simp add: resolve_url_def dict_get_def getattr_def py_or_def isinstance_str_def ascii_def)
  have a1: "truthy (resolve_url ?settings Map.empty)" unfolding u by (simp add: ascii_def)
  have a2: "fst (fetch_pattern_header ?net (resolve_url ?settings Map.empty) ?w)
              = Inl (RequestError (ascii ''timed out''))"
    unfolding u by (simp add: fetch_pattern_header_def httpx_get_def)
  from handle_catches_only_HTTPError [OF a1 a2] show ?thesis by simp
qed

text \<open>
  Claim C8. With \<open>--dry-run\<close> set and a successful fetch, \<open>handle\<close> writes the
  \<open>Dry run - not saving\<close> warning and returns without calling
  \<open>save_pattern_header\<close>: the file system is unchanged and no file write is made.
\<close>

theorem handle_dry_run_saves_nothing:
  assumes "options ''dry_run'' = Some (PyBool True)"
    and "truthy (resolve_url settings options)"
    and "fst (fetch_pattern_header net (resolve_url settings options) w) = Inr content"
  shows "handle net settings module_file options w =
           (Inr (), w\<lparr>log := log w @
              [Stdout Plain (ascii ''Fetching pattern header from: ''
                               @ py_str (resolve_url settings options)),
               HttpGet (resolve_url settings options),
               Stdout Plain (ascii ''Fetched '' @ digits (length content) @ ascii '' characters''),
               Stdout WARNING (ascii ''Dry run - not saving'')]\<rparr>)
       \<and> fs (snd (handle net settings module_file options w)) = fs w
       \<and> file_writes (snd (handle net settings module_file options w)) = file_writes w"
proof -
  have "truthy (dict_get options ''dry_run'')" using assms(1) by (simp add: dict_get_def)
  with handle_fetched [OF assms(2,3), of module_file] show ?thesis
    by (simp add: Let_def file_writes_def)
qed

theorem handle_dry_run_saves_nothing_witness:
  "handle (\<lambda>_. Inr \<lparr>status_code = 200, body_text = ascii ''hi'', status_message = []\<rparr>)
         [''PATTERN_HEADER_URL'' \<mapsto> PyStr (ascii ''u'')]
         [ascii ''app'', ascii ''management'', ascii ''commands'', ascii ''c.py'']
         [''dry_run'' \<mapsto> PyBool True] \<lparr>fs = Dir [], log = []\<rparr>
     = (Inr (), \<lparr>fs = Dir [], log =
          [Stdout Plain (ascii ''Fetching pattern header from: u''),
           HttpGet (PyStr (ascii ''u'')),
           Stdout Plain (ascii ''Fetched 2 characters''),
           Stdout WARNING (ascii ''Dry run - not saving'')]\<rparr>)"
proof -
  let ?net = "\<lambda>_::str. Inr \<lparr>status_code = 200, body_text = ascii ''hi'', status_message = []\<rparr> :: exc + response"
  let ?settings = "[''PATTERN_HEADER_URL'' \<mapsto> PyStr (ascii ''u'')]"
  let ?options = "[''dry_run'' \<mapsto> PyBool True]"
  let ?w = "\<lparr>fs = Dir [], log = []\<rparr>"
  have a1: "?options ''dry_run'' = Some (PyBool True)" by simp
  have u: "resolve_url ?settings ?options = PyStr (ascii ''u'')"
    by (simp add: resolve_url_def dict_get_def getattr_def py_or_def isinstance_str_def ascii_def)
  have a2: "truthy (resolve_url ?settings ?options)" unfolding u by (simp add: ascii_def)
  have a3: "fst (fetch_pattern_header ?net (resolve_url ?settings ?options) ?w) = Inr (ascii ''hi'')"
    unfolding u by (simp add: fetch_pattern_header_def httpx_get_def raise_for_status_def is_success_def)
  have d: "digits (length (ascii ''hi'')) = ascii ''2''" by (simp add: ascii_def digits.simps)
  from handle_dry_run_saves_nothing [OF a1 a2 a3] show ?thesis
    by (simp add: u d) (simp add: ascii_def)
qed

text \<open>
  Claim C4. One invocation of \<open>handle\<close> makes at most one HTTP GET and at most one
  file write; when the fetch succeeds, \<open>--dry-run\<close> is not set and \<open>handle\<close>
  returns normally, it makes exactly one GET, of the resolved URL, and exactly one
  write, of the fetched text to the target path.
\<close>

theorem handle_one_get_one_write:
  "length (http_gets (snd (handle net settings module_file options w))) \<le> length (http_gets w) + 1
   \<and> length (file_writes (snd (handle net settings module_file options w)))
        \<le> length (file_writes w) + 1
   \<and> (\<forall>content.
         truthy (resolve_url settings options) \<and>
         fst (fetch_pattern_header net (resolve_url settings options) w) = Inr content \<and>
         \<not> truthy (dict_get options ''dry_run'') \<and>
         fst (handle net settings module_file options w) = Inr () \<longrightarrow>
         http_gets (snd (handle net settings module_file options w))
           = http_gets w @ [HttpGet (resolve_url settings options)] \<and>
         file_writes (snd (handle net settings module_file options w))
           = file_writes w @ [WriteText (resolve_target_path module_file) content])"
proof (cases "truthy (resolve_url settings options)")
  case False
  from handle_no_url [OF False, of net module_file w] False show ?thesis by (simp add: http_gets_def file_writes_def)
next
  case True
  show ?thesis
  proof (cases "fst (fetch_pattern_header net (resolve_url settings options) w)")
    case (Inl e)
    from handle_fetch_raises [OF True Inl, of module_file] Inl show ?thesis
      by (simp add: http_gets_def file_writes_def)
  next
    case (Inr content)
    let ?url = "resolve_url settings options"
    let ?w3 = "w\<lparr>log := log w @
            [Stdout Plain (ascii ''Fetching pattern header from: '' @ py_str ?url),
             HttpGet ?url,
             Stdout Plain (ascii ''Fetched '' @ digits (length content) @ ascii '' characters'')]\<rparr>"
    let ?s = "save_pattern_header content (resolve_target_path module_file) ?w3"
    note h = handle_fetched [OF True Inr, of module_file]
    show ?thesis
    proof (cases "truthy (dict_get options ''dry_run'')")
      case True
      with h Inr show ?thesis by (simp add: Let_def http_gets_def file_writes_def)
    next
      case False
      have l: "log (snd (handle net settings module_file options w)) =
          log (snd ?s) @ (if fst ?s = Inr () then
             [Stdout SUCCESS (ascii ''Saved to: '' @ path_str (resolve_target_path module_file))] else [])"
        using h False by (auto simp: Let_def split: prod.splits sum.splits)
      have r: "(fst (handle net settings module_file options w) = Inr ()) = (fst ?s = Inr ())"
        using h False by (auto simp: Let_def split: prod.splits sum.splits)
      show ?thesis
        using save_log [of content "resolve_target_path module_file" ?w3]
          save_raises_log [of content "resolve_target_path module_file" ?w3] Inr
        by (auto simp: l r http_gets_def file_writes_def split: sum.splits)
    qed
  qed
qed

lemma handle_saved:
  assumes "truthy (resolve_url settings options)"
    and "fst (fetch_pattern_header net (resolve_url settings options) w) = Inr content"
    and "\<not> truthy (dict_get options ''dry_run'')"
    and "w3 = w\<lparr>log := log w @
            [Stdout Plain (ascii ''Fetching pattern header from: ''
                             @ py_str (resolve_url settings options)),
             HttpGet (resolve_url settings options),
             Stdout Plain (ascii ''Fetched '' @ digits (length content) @ ascii '' characters'')]\<rparr>"
    and "s = save_pattern_header content (resolve_target_path mf) w3"
  shows "fst (handle net settings mf options w) = fst s"
    and "fs (snd (handle net settings mf options w)) = fs (snd s)"
    and "log (snd (handle net settings mf options w)) =
           log (snd s) @ (if fst s = Inr () then
             [Stdout SUCCESS (ascii ''Saved to: '' @ path_str (resolve_target_path mf))] else [])"
  using handle_fetched [OF assms(1,2), of mf] assms(3,4,5)
  by (auto simp: Let_def split: prod.splits sum.splits)

lemma handle_http_gets:
  assumes "truthy (resolve_url settings options)"
  shows "http_gets (snd (handle net settings mf options w))
           = http_gets w @ [HttpGet (resolve_url settings options)]"
proof (cases "fst (fetch_pattern_header net (resolve_url settings options) w)")
  case (Inl e)
  from handle_fetch_raises [OF assms Inl, of mf] show ?thesis
    by (simp add: http_gets_def)
next
  case (Inr content)
  show ?thesis
  proof (cases "truthy (dict_get options ''dry_run'')")
    case True
    with handle_fetched [OF assms Inr, of mf] show ?thesis
      by (simp add: Let_def http_gets_def)
  next
    case False
    from handle_saved(3) [OF assms Inr False refl refl, of mf] show ?thesis
      by (simp add: save_log http_gets_def split: sum.splits)
  qed
qed

theorem handle_one_get_one_write_witness:
  "http_gets (snd (handle (\<lambda>_. Inr \<lparr>status_code = 200, body_text = ascii ''hi'', status_message = []\<rparr>)
         [''PATTERN_HEADER_URL'' \<mapsto> PyStr (ascii ''u'')]
         [ascii ''app'', ascii ''management'', ascii ''commands'', ascii ''c.py'']
         Map.empty \<lparr>fs = Dir [], log = []\<rparr>)) = [HttpGet (PyStr (ascii ''u''))]
   \<and> file_writes (snd (handle (\<lambda>_. Inr \<lparr>status_code = 200, body_text = ascii ''hi'', status_message = []\<rparr>)
         [''PATTERN_HEADER_URL'' \<mapsto> PyStr (ascii ''u'')]
         [ascii ''app'', ascii ''management'', ascii ''commands'', ascii ''c.py'']
         Map.empty \<lparr>fs = Dir [], log = []\<rparr>))
       = [WriteText [ascii ''app'', ascii ''pdf_checker_app_templates'', ascii ''pdf_checker_app'',
              ascii ''includes'', ascii ''pattern_header.html''] (ascii ''hi'')]"
proof -
  let ?net = "\<lambda>_::str. Inr \<lparr>status_code = 200, body_text = ascii ''hi'', status_message = []\<rparr> :: exc + response"
  let ?settings = "[''PATTERN_HEADER_URL'' \<mapsto> PyStr (ascii ''u'')]"
  let ?mf = "[ascii ''app'', ascii ''management'', ascii ''commands'', ascii ''c.py'']"
  let ?w = "\<lparr>fs = Dir [], log = []\<rparr>"
  have u: "resolve_url ?settings Map.empty = PyStr (ascii ''u'')"
    by (simp add: resolve_url_def dict_get_def getattr_def py_or_def isinstance_str_def ascii_def)
  have a1: "truthy (resolve_url ?settings Map.empty)" unfolding u by (simp add: ascii_def)
  have a2: "fst (fetch_pattern_header ?net (resolve_url ?settings Map.empty) ?w) = Inr (ascii ''hi'')"
    unfolding u by (simp add: fetch_pattern_header_def httpx_get_def raise_for_status_def is_success_def)
  have a3: "\<not> truthy (dict_get Map.empty ''dry_run'')" by (simp add: dict_get_def)
  have t: "resolve_target_path ?mf = [ascii ''app'', ascii ''pdf_checker_app_templates'', ascii ''pdf_checker_app'',
              ascii ''includes'', ascii ''pattern_header.html'']"
    by (simp add: resolve_target_path_def parent_def)
  have a4: "fst (handle ?net ?settings ?mf Map.empty ?w) = Inr ()"
    unfolding handle_saved(1) [OF a1 a2 a3 refl refl] save_ok_iff t
    by (simp add: ascii_def utf8_char_def)
  from handle_one_get_one_write [of ?net ?settings ?mf Map.empty ?w] a1 a2 a3 a4
  show ?thesis unfolding u t by (simp add: http_gets_def file_writes_def)
qed

text \<open>
  Claim C9. The URL of the command: a non-empty string given as \<open>--url\<close> is the URL
  that is fetched, whatever the settings say; a \<open>--url\<close> value that is not a string
  is ignored, the command behaving as if the option were absent and the URL being
  \<open>settings.PATTERN_HEADER_URL\<close>; with the option absent or empty and the setting
  unset or empty the URL is empty; and on an empty URL \<open>handle\<close> only prints the
  error line and returns, with no HTTP request and no file write.
\<close>

theorem handle_url_precedence:
  "(\<forall>u. options ''url'' = Some (PyStr u) \<and> u \<noteq> [] \<longrightarrow>
        resolve_url settings options = PyStr u \<and>
        http_gets (snd (handle net settings module_file options w))
          = http_gets w @ [HttpGet (PyStr u)])
   \<and> (\<forall>v. options ''url'' = Some v \<and> \<not> isinstance_str v \<longrightarrow>
        resolve_url settings options = getattr settings ''PATTERN_HEADER_URL'' (PyStr []) \<and>
        handle net settings module_file options w
          = handle net settings module_file (options(''url'' := None)) w)
   \<and> ((options ''url'' = None \<or> options ''url'' = Some (PyStr [])) \<and>
       (settings ''PATTERN_HEADER_URL'' = None \<or> settings ''PATTERN_HEADER_URL'' = Some (PyStr []))
        \<longrightarrow> \<not> truthy (resolve_url settings options))
   \<and> (\<not> truthy (resolve_url settings options) \<longrightarrow>
        handle net settings module_file options w =
          (Inr (), w\<lparr>log := log w @
             [Stdout ERROR
                (ascii ''PATTERN_HEADER_URL not set in settings and --url not provided'')]\<rparr>))"
proof (intro conjI allI impI)
  fix u assume a: "options ''url'' = Some (PyStr u) \<and> u \<noteq> []"
  then show r: "resolve_url settings options = PyStr u"
    by (simp add: resolve_url_def dict_get_def isinstance_str_def py_or_def)
  have t: "truthy (resolve_url settings options)" using a r by simp
  show "http_gets (snd (handle net settings module_file options w)) = http_gets w @ [HttpGet (PyStr u)]"
    using handle_http_gets [OF t, of net module_file w] r by simp
next
  fix v assume a: "options ''url'' = Some v \<and> \<not> isinstance_str v"
  then show "resolve_url settings options = getattr settings ''PATTERN_HEADER_URL'' (PyStr [])"
    by (simp add: resolve_url_def dict_get_def py_or_def)
  have e1: "resolve_url settings (options(''url'' := None)) = resolve_url settings options"
    using a by (simp add: resolve_url_def dict_get_def py_or_def isinstance_str_def)
  have e2: "dict_get (options(''url'' := None)) ''dry_run'' = dict_get options ''dry_run''"
    by (simp add: dict_get_def)
  show "handle net settings module_file options w
          = handle net settings module_file (options(''url'' := None)) w"
    unfolding handle_def e1 e2 ..
next
  assume "(options ''url'' = None \<or> options ''url'' = Some (PyStr [])) \<and>
       (settings ''PATTERN_HEADER_URL'' = None \<or> settings ''PATTERN_HEADER_URL'' = Some (PyStr []))"
  then show "\<not> truthy (resolve_url settings options)"
    by (auto simp: resolve_url_def dict_get_def py_or_def isinstance_str_def getattr_def)
next
  assume "\<not> truthy (resolve_url settings options)"
  then show "handle net settings module_file options w =
          (Inr (), w\<lparr>log := log w @
             [Stdout ERROR
                (ascii ''PATTERN_HEADER_URL not set in settings and --url not provided'')]\<rparr>)"
    by (rule handle_no_url)
qed

theorem handle_url_precedence_witness:
  "http_gets (snd (handle (\<lambda>_. Inl (RequestError []))
       [''PATTERN_HEADER_URL'' \<mapsto> PyStr (ascii ''s'')] []
       [''url'' \<mapsto> PyStr (ascii ''o'')] \<lparr>fs = Dir [], log = []\<rparr>))
     = [HttpGet (PyStr (ascii ''o''))]
   \<and> handle (\<lambda>_. Inl (RequestError []))
       [''PATTERN_HEADER_URL'' \<mapsto> PyStr (ascii ''s'')] [] [''url'' \<mapsto> PyInt 5] \<lparr>fs = Dir [], log = []\<rparr>
     = handle (\<lambda>_. Inl (RequestError []))
       [''PATTERN_HEADER_URL'' \<mapsto> PyStr (ascii ''s'')] [] Map.empty \<lparr>fs = Dir [], log = []\<rparr>
   \<and> handle (\<lambda>_. Inl (RequestError [])) Map.empty [] Map.empty \<lparr>fs = Dir [], log = []\<rparr>
     = (Inr (), \<lparr>fs = Dir [], log =
         [Stdout ERROR (ascii ''PATTERN_HEADER_URL not set in settings and --url not provided'')]\<rparr>)"
proof -
  let ?net = "\<lambda>_::str. Inl (RequestError []) :: exc + response"
  let ?settings = "[''PATTERN_HEADER_URL'' \<mapsto> PyStr (ascii ''s'')]"
  let ?w = "\<lparr>fs = Dir [], log = []\<rparr>"
  have n: "ascii ''o'' \<noteq> []" by (simp add: ascii_def)
  have 1: "http_gets (snd (handle ?net ?settings [] [''url'' \<mapsto> PyStr (ascii ''o'')] ?w))
     = [HttpGet (PyStr (ascii ''o''))]"
    using handle_url_precedence [of "[''url'' \<mapsto> PyStr (ascii ''o'')]" ?settings ?net "[]" ?w] n
    by (simp add: http_gets_def)
  have 2: "handle ?net ?settings [] [''url'' \<mapsto> PyInt 5] ?w = handle ?net ?settings [] Map.empty ?w"
    using handle_url_precedence [of "[''url'' \<mapsto> PyInt 5]" ?settings ?net "[]" ?w]
    by (simp add: isinstance_str_def)
  have 3: "handle ?net Map.empty [] Map.empty ?w = (Inr (), \<lparr>fs = Dir [], log =
         [Stdout ERROR (ascii ''PATTERN_HEADER_URL not set in settings and --url not provided'')]\<rparr>)"
    using handle_url_precedence [of Map.empty Map.empty ?net "[]" ?w]
    by simp
  from 1 2 3 show ?thesis by simp
qed

section \<open>Properties of save\_pattern\_header\<close>




section \<open>Properties of manage.py\<close>

text \<open>
  Claim C7. \<open>main\<close> sets \<open>DJANGO_SETTINGS_MODULE\<close> to \<open>config.settings\<close> only when the
  variable is unset: an environment in which it has a value, the empty string
  included, is left as it is. When Django can be imported, \<open>main\<close> then delegates to
  \<open>execute_from_command_line\<close> with \<open>sys.argv\<close>, which runs in that environment.
\<close>

theorem main_setdefault_settings_module:
  "(\<forall>v. env (ascii ''DJANGO_SETTINGS_MODULE'') = Some v \<longrightarrow>
        snd (main django_importable execute_from_command_line argv env) = env)
   \<and> (env (ascii ''DJANGO_SETTINGS_MODULE'') = None \<longrightarrow>
        snd (main django_importable execute_from_command_line argv env)
          = env(ascii ''DJANGO_SETTINGS_MODULE'' \<mapsto> ascii ''config.settings''))
   \<and> (django_importable \<longrightarrow>
        fst (main django_importable execute_from_command_line argv env)
          = Inr (execute_from_command_line argv
                   (snd (main django_importable execute_from_command_line argv env))))"
  by (simp add: main_def setdefault_def Let_def)

theorem main_setdefault_settings_module_witness:
  "main True (\<lambda>argv env. (argv, env (ascii ''DJANGO_SETTINGS_MODULE'')))
        [ascii ''manage.py'', ascii ''check'']
        [ascii ''DJANGO_SETTINGS_MODULE'' \<mapsto> ascii ''other.settings'']
     = (Inr ([ascii ''manage.py'', ascii ''check''], Some (ascii ''other.settings'')),
        [ascii ''DJANGO_SETTINGS_MODULE'' \<mapsto> ascii ''other.settings''])
   \<and> main True (\<lambda>argv env. (argv, env (ascii ''DJANGO_SETTINGS_MODULE'')))
        [ascii ''manage.py'', ascii ''check''] Map.empty
     = (Inr ([ascii ''manage.py'', ascii ''check''], Some (ascii ''config.settings'')),
        [ascii ''DJANGO_SETTINGS_MODULE'' \<mapsto> ascii ''config.settings''])"
proof -
  let ?ex = "\<lambda>(argv :: str list) (env :: environ). (argv, env (ascii ''DJANGO_SETTINGS_MODULE''))"
  let ?argv = "[ascii ''manage.py'', ascii ''check'']"
  let ?env = "[ascii ''DJANGO_SETTINGS_MODULE'' \<mapsto> ascii ''other.settings'']"
  from main_setdefault_settings_module [of ?env True ?ex ?argv]
  have 1: "main True ?ex ?argv ?env = (Inr (?argv, Some (ascii ''other.settings'')), ?env)"
    by (simp add: prod_eq_iff)
  from main_setdefault_settings_module [of Map.empty True ?ex ?argv]
  have 2: "main True ?ex ?argv Map.empty
     = (Inr (?argv, Some (ascii ''config.settings'')),
        [ascii ''DJANGO_SETTINGS_MODULE'' \<mapsto> ascii ''config.settings''])"
    by (simp add: prod_eq_iff)
  from 1 2 show ?thesis by simp
qed

section \<open>Properties of admin.py\<close>

text \<open>
  Claim C6. Importing \<open>admin.py\<close> into a site on which none of the three models is
  registered yet adds exactly three registrations, for \<open>PDFDocument\<close>,
  \<open>VeraPDFResult\<close> and \<open>OpenRouterSummary\<close>, each with an admin class of its own,
  and registers nothing else.
\<close>

theorem admin_py_registers_exactly_three:
  assumes "\<forall>m \<in> {''PDFDocument'', ''VeraPDFResult'', ''OpenRouterSummary''}. map_of site m = None"
  shows "admin_py site =
           Inr (site @ [(''PDFDocument'', PDFDocumentAdmin),
                        (''VeraPDFResult'', VeraPDFResultAdmin),
                        (''OpenRouterSummary'', OpenRouterSummaryAdmin)])
       \<and> distinct (map class_name [PDFDocumentAdmin, VeraPDFResultAdmin, OpenRouterSummaryAdmin])"
  using assms
  by (simp add: admin_py_def register_def PDFDocumentAdmin_def VeraPDFResultAdmin_def
        OpenRouterSummaryAdmin_def)

theorem admin_py_registers_exactly_three_witness:
  "admin_py [] = Inr [(''PDFDocument'', PDFDocumentAdmin),
                      (''VeraPDFResult'', VeraPDFResultAdmin),
                      (''OpenRouterSummary'', OpenRouterSummaryAdmin)]
   \<and> map fst [(''PDFDocument'', PDFDocumentAdmin),
               (''VeraPDFResult'', VeraPDFResultAdmin),
               (''OpenRouterSummary'', OpenRouterSummaryAdmin)]
       = [''PDFDocument'', ''VeraPDFResult'', ''OpenRouterSummary'']"
  using admin_py_registers_exactly_three [of "[]"] by simp

section \<open>Properties of the report view\<close>

lemma resolve_reverse:
  "resolve_pdf_report_url (reverse_pdf_report_url seg) = (if is_uuid seg then Some seg else None)"
proof -
  have s: "ascii ''/'' = [47]" by (simp add: ascii_def)
  show ?thesis
    by (simp add: resolve_pdf_report_url_def reverse_pdf_report_url_def Let_def s)
qed

lemma contains_infix: "contains (h @ f @ t) f"
proof -
  have "length h \<in> set [0 ..< Suc (length (h @ f @ t))]" by simp
  moreover have "take (length f) (drop (length h) (h @ f @ t)) = f" by simp
  ultimately show ?thesis unfolding contains_def by blast
qed

text \<open>
  Claim C5. The report view answers 200, with a body that contains the document's
  original filename, for every well-formed UUID that is the key of a document; it
  answers 404 for a well-formed UUID that is no document's key and for a path
  segment that is not a well-formed UUID.
\<close>

theorem pdf_report_status:
  "(\<forall>doc. is_uuid pk \<and> documents pk = Some doc \<longrightarrow>
       fst (pdf_report documents page_head page_tail (reverse_pdf_report_url pk)) = 200 \<and>
       contains (snd (pdf_report documents page_head page_tail (reverse_pdf_report_url pk)))
         (original_filename doc))
   \<and> (is_uuid pk \<and> documents pk = None \<longrightarrow>
       fst (pdf_report documents page_head page_tail (reverse_pdf_report_url pk)) = 404)
   \<and> (\<not> is_uuid pk \<longrightarrow>
       fst (pdf_report documents page_head page_tail (reverse_pdf_report_url pk)) = 404)"
  by (simp add: pdf_report_def resolve_reverse contains_infix)

theorem pdf_report_status_witness:
  "fst (pdf_report (setUp (ascii ''12345678-1234-4234-8234-123456789abc'')) [] []
          (reverse_pdf_report_url (ascii ''12345678-1234-4234-8234-123456789abc''))) = 200
   \<and> contains (snd (pdf_report (setUp (ascii ''12345678-1234-4234-8234-123456789abc'')) [] []
          (reverse_pdf_report_url (ascii ''12345678-1234-4234-8234-123456789abc''))))
        (ascii ''test.pdf'')
   \<and> fst (pdf_report (setUp (ascii ''12345678-1234-4234-8234-123456789abc'')) [] []
          (reverse_pdf_report_url (ascii ''00000000-0000-4000-8000-000000000000''))) = 404
   \<and> fst (pdf_report (setUp (ascii ''12345678-1234-4234-8234-123456789abc'')) [] []
          (ascii ''/pdf/report/not-a-uuid/'')) = 404"
proof -
  let ?u = "ascii ''12345678-1234-4234-8234-123456789abc''"
  let ?v = "ascii ''00000000-0000-4000-8000-000000000000''"
  have u: "is_uuid ?u" by code_simp
  have v: "is_uuid ?v" by code_simp
  have n: "\<not> is_uuid (ascii ''not-a-uuid'')" by (simp add: is_uuid_def ascii_def)
  have r: "reverse_pdf_report_url (ascii ''not-a-uuid'') = ascii ''/pdf/report/not-a-uuid/''"
    by (simp add: reverse_pdf_report_url_def ascii_def)
  have d: "setUp ?u ?u = Some \<lparr>
        original_filename = ascii ''test.pdf'',
        file_checksum = ascii ''test_checksum_123'',
        file_size = 1024,
        user_first_name = ascii ''Test'',
        user_last_name = ascii ''User'',
        user_email = ascii ''test@example.com'',
        user_groups = [ascii ''test_group''],
        processing_status = ascii ''completed''\<rparr>" by (simp add: setUp_def)
  have e: "setUp ?u ?v = None" by (simp add: setUp_def ascii_def)
  from pdf_report_status [of ?u "setUp ?u" "[]" "[]"] u d
  have 1: "fst (pdf_report (setUp ?u) [] [] (reverse_pdf_report_url ?u)) = 200
     \<and> contains (snd (pdf_report (setUp ?u) [] [] (reverse_pdf_report_url ?u))) (ascii ''test.pdf'')"
    by simp
  from pdf_report_status [of ?v "setUp ?u" "[]" "[]"] v e
  have 2: "fst (pdf_report (setUp ?u) [] [] (reverse_pdf_report_url ?v)) = 404" by simp
  from pdf_report_status [of "ascii ''not-a-uuid''" "setUp ?u" "[]" "[]"] n
  have 3: "fst (pdf_report (setUp ?u) [] [] (ascii ''/pdf/report/not-a-uuid/'')) = 404"
    unfolding r by simp
  from 1 2 3 show ?thesis by simp
qed

end
